theory Spec2Isabelle
  imports Main
begin

section \<open>JavaScript values and objects\<close>

text \<open>
  The values that flow through \<^verbatim>\<open>fileConfigurationManager.ts\<close> are settings read from the
  editor's configuration and the literals of the source: \<^verbatim>\<open>undefined\<close>, booleans, numbers
  and strings. The TypeScript annotations are erased at run time, so a field such as
  \<^verbatim>\<open>tabSize: number\<close> holds whichever value the caller passed. Numbers are the
  integers an editor reports for an indentation width; \<^verbatim>\<open>NaN\<close> and fractions are not
  part of this model.
\<close>

datatype jsvalue = JUndefined | JBool bool | JNum int | JStr string

text \<open>
  A plain object is the list of its own properties in insertion order, which is the order
  \<^verbatim>\<open>Object.keys\<close> reports. Reading a property that is not there gives
  \<^verbatim>\<open>undefined\<close>.
\<close>

type_synonym jsobject = "(string \<times> jsvalue) list"

definition Object_keys :: "jsobject \<Rightarrow> string list" where
  "Object_keys a = map fst a"

definition obj_get :: "jsobject \<Rightarrow> string \<Rightarrow> jsvalue" where
  "obj_get a key = (case map_of a key of None \<Rightarrow> JUndefined | Some v \<Rightarrow> v)"

text \<open>Truthiness, as the operator \<^verbatim>\<open>!\<close> sees it.\<close>

fun truthy :: "jsvalue \<Rightarrow> bool" where
  "truthy JUndefined = False"
| "truthy (JBool b) = b"
| "truthy (JNum n) = (n \<noteq> 0)"
| "truthy (JStr s) = (s \<noteq> [])"

text \<open>Object spread \<^verbatim>\<open>{...a, ...b}\<close>: a key already there keeps its place and takes
  the new value, a new key goes to the end.\<close>

fun assign_prop :: "jsobject \<Rightarrow> string \<Rightarrow> jsvalue \<Rightarrow> jsobject" where
  "assign_prop [] key v = [(key, v)]"
| "assign_prop ((k, w) # rest) key v =
     (if k = key then (k, v) # rest else (k, w) # assign_prop rest key v)"

fun spread :: "jsobject \<Rightarrow> jsobject \<Rightarrow> jsobject" where
  "spread a [] = a"
| "spread a ((k, v) # rest) = spread (assign_prop a k v) rest"

section \<open>objAreEqual\<close>

text \<open>
  \<^verbatim>\<open>
  function objAreEqual<T>(a: T, b: T): boolean {
    let keys = Object.keys(a)
    for (let i = 0; i < keys.length; i++) {
      let key = keys[i]
      if ((a as any)[key] !== (b as any)[key]) { return false }
    }
    return true
  }
  \<close>
  The loop runs over the keys of the first argument only.
\<close>

fun objAreEqual_loop :: "string list \<Rightarrow> jsobject \<Rightarrow> jsobject \<Rightarrow> bool" where
  "objAreEqual_loop [] a b = True"
| "objAreEqual_loop (key # keys) a b =
     (if obj_get a key \<noteq> obj_get b key then False else objAreEqual_loop keys a b)"

definition objAreEqual :: "jsobject \<Rightarrow> jsobject \<Rightarrow> bool" where
  "objAreEqual a b = objAreEqual_loop (Object_keys a) a b"

section \<open>Collaborators: API version, settings store, client\<close>

text \<open>
  Modelled from the spec: the class \<^verbatim>\<open>API\<close> of \<^verbatim>\<open>utils/api\<close> is imported by the
  source but is not part of it. The spec describes a monotonically ordered backend
  protocol version compared against minimum-version thresholds; a version is its three
  numbers, ordered lexicographically, and \<^verbatim>\<open>v290\<close>, \<^verbatim>\<open>v333\<close> are 2.9.0 and 3.3.3.
\<close>

datatype API = API (major: nat) (minor: nat) (patch: nat)

fun lt :: "API \<Rightarrow> API \<Rightarrow> bool" where
  "lt (API a b c) (API a' b' c') =
     (a < a' \<or> (a = a' \<and> (b < b' \<or> (b = b' \<and> c < c'))))"

definition gte :: "API \<Rightarrow> API \<Rightarrow> bool" where
  "gte v w = (\<not> lt v w)"

definition v290 :: API where "v290 = API 2 9 0"
definition v333 :: API where "v333 = API 3 3 3"

text \<open>
  A \<^verbatim>\<open>WorkspaceConfiguration\<close> is one section of the settings store, read by
  \<^verbatim>\<open>config.get(key)\<close> and \<^verbatim>\<open>config.get(key, defaultValue)\<close>: an unset key reads
  as \<^verbatim>\<open>undefined\<close>, or as the default when one is given.
\<close>

type_synonym WorkspaceConfiguration = "string \<rightharpoonup> jsvalue"

definition config_get :: "WorkspaceConfiguration \<Rightarrow> string \<Rightarrow> jsvalue" where
  "config_get config key = (case config key of None \<Rightarrow> JUndefined | Some v \<Rightarrow> v)"

definition config_get_default :: "WorkspaceConfiguration \<Rightarrow> string \<Rightarrow> jsvalue \<Rightarrow> jsvalue" where
  "config_get_default config key defaultValue =
     (case config key of None \<Rightarrow> defaultValue | Some v \<Rightarrow> v)"

record FormatOptions =
  tabSize :: jsvalue
  insertSpaces :: jsvalue

text \<open>The editor host: \<^verbatim>\<open>workspace.getConfiguration(section, uri?)\<close> and
  \<^verbatim>\<open>workspace.getFormatOptions(uri)\<close>.\<close>

record workspace =
  workspace_getConfiguration :: "string \<Rightarrow> string option \<Rightarrow> WorkspaceConfiguration"
  workspace_getFormatOptions :: "string \<Rightarrow> FormatOptions"

record TextDocument =
  uri :: string
  languageId :: string

record FileConfiguration =
  formatOptions :: jsobject
  preferences :: jsobject

text \<open>\<^verbatim>\<open>{ file, ...currentOptions }\<close>\<close>

record ConfigureRequestArguments = FileConfiguration +
  file_arg :: string

datatype CancellationToken = CancellationToken_None | Token bool

record request =
  command :: string
  args :: ConfigureRequestArguments
  token :: CancellationToken

text \<open>
  How an awaited \<^verbatim>\<open>client.execute\<close> settles: it resolves with a response whose
  \<^verbatim>\<open>type\<close> field is given, or it rejects.
\<close>

datatype exec_result = Resolves string | Rejects

text \<open>
  The service client. What the backend answers may depend on everything it was sent
  before, so \<open>execute\<close> takes the requests issued so far and the new request.
\<close>

record client =
  toPath :: "string \<Rightarrow> string"
  apiVersion :: API
  execute :: "request list \<Rightarrow> request \<Rightarrow> exec_result"

section \<open>Deriving the configuration of a file\<close>

definition isTypeScriptDocument :: "string \<Rightarrow> bool" where
  "isTypeScriptDocument langId = (take (length ''typescript'') langId = ''typescript'')"

definition getFormatOptions :: "workspace \<Rightarrow> FormatOptions \<Rightarrow> string \<Rightarrow> string \<Rightarrow> jsobject" where
  "getFormatOptions ws options language u =
     (let config = workspace_getConfiguration ws (language @ ''.format'') (Some u) in
      [(''tabSize'', tabSize options),
       (''indentSize'', tabSize options),
       (''convertTabsToSpaces'', insertSpaces options),
       (''newLineCharacter'', JStr [CHR 0x0A]),
       (''insertSpaceAfterCommaDelimiter'', config_get config ''insertSpaceAfterCommaDelimiter''),
       (''insertSpaceAfterConstructor'', config_get config ''insertSpaceAfterConstructor''),
       (''insertSpaceAfterSemicolonInForStatements'',
          config_get config ''insertSpaceAfterSemicolonInForStatements''),
       (''insertSpaceBeforeAndAfterBinaryOperators'',
          config_get config ''insertSpaceBeforeAndAfterBinaryOperators''),
       (''insertSpaceAfterKeywordsInControlFlowStatements'',
          config_get config ''insertSpaceAfterKeywordsInControlFlowStatements''),
       (''insertSpaceAfterFunctionKeywordForAnonymousFunctions'',
          config_get config ''insertSpaceAfterFunctionKeywordForAnonymousFunctions''),
       (''insertSpaceBeforeFunctionParenthesis'',
          config_get config ''insertSpaceBeforeFunctionParenthesis''),
       (''insertSpaceAfterOpeningAndBeforeClosingNonemptyParenthesis'',
          config_get config ''insertSpaceAfterOpeningAndBeforeClosingNonemptyParenthesis''),
       (''insertSpaceAfterOpeningAndBeforeClosingNonemptyBrackets'',
          config_get config ''insertSpaceAfterOpeningAndBeforeClosingNonemptyBrackets''),
       (''insertSpaceAfterOpeningAndBeforeClosingEmptyBraces'',
          config_get config ''insertSpaceAfterOpeningAndBeforeClosingEmptyBraces''),
       (''insertSpaceAfterOpeningAndBeforeClosingNonemptyBraces'',
          config_get config ''insertSpaceAfterOpeningAndBeforeClosingNonemptyBraces''),
       (''insertSpaceAfterOpeningAndBeforeClosingTemplateStringBraces'',
          config_get config ''insertSpaceAfterOpeningAndBeforeClosingTemplateStringBraces''),
       (''insertSpaceAfterOpeningAndBeforeClosingJsxExpressionBraces'',
          config_get config ''insertSpaceAfterOpeningAndBeforeClosingJsxExpressionBraces''),
       (''insertSpaceAfterTypeAssertion'', config_get config ''insertSpaceAfterTypeAssertion''),
       (''placeOpenBraceOnNewLineForFunctions'',
          config_get config ''placeOpenBraceOnNewLineForFunctions''),
       (''placeOpenBraceOnNewLineForControlBlocks'',
          config_get config ''placeOpenBraceOnNewLineForControlBlocks''),
       (''semicolons'', config_get_default config ''semicolons'' JUndefined)])"

record SuggestOptions =
  enabled :: jsvalue
  names :: jsvalue
  paths :: jsvalue
  completeFunctionCalls :: jsvalue
  autoImports :: jsvalue
  includeAutomaticOptionalChainCompletions :: jsvalue
  importStatementSuggestions :: jsvalue
  includeCompletionsForImportStatements :: jsvalue
  includeCompletionsWithSnippetText :: jsvalue
  includeCompletionsWithClassMemberSnippets :: jsvalue
  generateReturnInDocTemplate :: jsvalue
  includeCompletionsWithObjectLiteralMethodSnippets :: jsvalue

definition getCompleteOptions :: "workspace \<Rightarrow> string \<Rightarrow> SuggestOptions" where
  "getCompleteOptions ws langId =
     (let lang = (if isTypeScriptDocument langId then ''typescript'' else ''javascript'');
          config = workspace_getConfiguration ws (lang @ ''.suggest'') None in
      \<lparr> enabled = config_get_default config ''enabled'' (JBool True),
        names = config_get_default config ''names'' (JBool True),
        paths = config_get_default config ''paths'' (JBool True),
        completeFunctionCalls = config_get_default config ''completeFunctionCalls'' (JBool True),
        autoImports = config_get_default config ''autoImports'' (JBool True),
        includeAutomaticOptionalChainCompletions =
          config_get_default config ''includeAutomaticOptionalChainCompletions'' (JBool True),
        importStatementSuggestions = config_get_default config ''importStatements'' (JBool True),
        includeCompletionsForImportStatements =
          config_get_default config ''includeCompletionsForImportStatements'' (JBool True),
        includeCompletionsWithSnippetText =
          config_get_default config ''includeCompletionsWithSnippetText'' (JBool True),
        includeCompletionsWithClassMemberSnippets =
          config_get_default config ''classMemberSnippets.enabled'' (JBool True),
        generateReturnInDocTemplate =
          config_get_default config ''jsdoc.generateReturns'' (JBool True),
        includeCompletionsWithObjectLiteralMethodSnippets =
          config_get_default config ''suggest.objectLiteralMethodSnippets.enabled'' (JBool True) \<rparr>)"

definition getQuoteStyle :: "client \<Rightarrow> WorkspaceConfiguration \<Rightarrow> jsvalue" where
  "getQuoteStyle cl config =
     (let quoteStyle = config_get_default config ''quoteStyle'' (JStr ''auto'') in
      if gte (apiVersion cl) v333 \<or> quoteStyle \<noteq> JStr ''auto'' then quoteStyle
      else JStr ''single'')"

definition getImportModuleSpecifier :: "WorkspaceConfiguration \<Rightarrow> jsvalue" where
  "getImportModuleSpecifier config =
     (let val = config_get config ''importModuleSpecifier'' in
      if val = JStr ''project-relative'' then JStr ''project-relative''
      else if val = JStr ''relative'' then JStr ''relative''
      else if val = JStr ''non-relative'' then JStr ''non-relative''
      else JUndefined)"

definition getImportModuleSpecifierEndingPreference :: "WorkspaceConfiguration \<Rightarrow> jsvalue" where
  "getImportModuleSpecifierEndingPreference config =
     (let val = config_get config ''importModuleSpecifierEnding'' in
      if val = JStr ''minimal'' then JStr ''minimal''
      else if val = JStr ''index'' then JStr ''index''
      else if val = JStr ''js'' then JStr ''js''
      else JStr ''auto'')"

definition getJsxAttributeCompletionStyle :: "WorkspaceConfiguration \<Rightarrow> jsvalue" where
  "getJsxAttributeCompletionStyle config =
     (let val = config_get config ''jsxAttributeCompletionStyle'' in
      if val = JStr ''braces'' then JStr ''braces''
      else if val = JStr ''none'' then JStr ''none''
      else JStr ''auto'')"

definition getInlayParameterNameHintsPreference :: "WorkspaceConfiguration \<Rightarrow> jsvalue" where
  "getInlayParameterNameHintsPreference config =
     (let val = config_get config ''inlayHints.parameterNames.enabled'' in
      if val = JStr ''none'' then JStr ''none''
      else if val = JStr ''literals'' then JStr ''literals''
      else if val = JStr ''all'' then JStr ''all''
      else JUndefined)"

definition getInlayHintsPreferences :: "WorkspaceConfiguration \<Rightarrow> jsobject" where
  "getInlayHintsPreferences config =
     [(''includeInlayParameterNameHints'', getInlayParameterNameHintsPreference config),
      (''includeInlayParameterNameHintsWhenArgumentMatchesName'',
         JBool (\<not> truthy (config_get_default config
           ''inlayHints.parameterNames.suppressWhenArgumentMatchesName'' (JBool True)))),
      (''includeInlayFunctionParameterTypeHints'',
         config_get_default config ''inlayHints.parameterTypes.enabled'' (JBool False)),
      (''includeInlayVariableTypeHints'',
         config_get_default config ''inlayHints.variableTypes.enabled'' (JBool False)),
      (''includeInlayPropertyDeclarationTypeHints'',
         config_get_default config ''inlayHints.propertyDeclarationTypes.enabled'' (JBool False)),
      (''includeInlayFunctionLikeReturnTypeHints'',
         config_get_default config ''inlayHints.functionLikeReturnTypes.enabled'' (JBool False)),
      (''includeInlayEnumMemberValueHints'',
         config_get_default config ''inlayHints.enumMemberValues.enabled'' (JBool False))]"

definition getPreferences :: "client \<Rightarrow> workspace \<Rightarrow> string \<Rightarrow> string \<Rightarrow> jsobject" where
  "getPreferences cl ws language u =
     (if lt (apiVersion cl) v290 then []
      else
        let config = workspace_getConfiguration ws language (Some u);
            preferencesConfig = workspace_getConfiguration ws (language @ ''.preferences'') (Some u);
            suggestConfig = getCompleteOptions ws language in
        spread
          [(''quotePreference'', getQuoteStyle cl preferencesConfig),
           (''importModuleSpecifierPreference'', getImportModuleSpecifier preferencesConfig),
           (''importModuleSpecifierEnding'',
              getImportModuleSpecifierEndingPreference preferencesConfig),
           (''jsxAttributeCompletionStyle'', getJsxAttributeCompletionStyle preferencesConfig),
           (''allowTextChangesInNewFiles'', JBool (take (length ''file:'') u = ''file:'')),
           (''allowRenameOfImportPath'', JBool True),
           (''provideRefactorNotApplicableReason'', JBool False),
           (''providePrefixAndSuffixTextForRename'',
              (if config_get_default preferencesConfig ''renameShorthandProperties'' (JBool True)
                    = JBool False
               then JBool False
               else config_get_default preferencesConfig ''useAliasesForRenames'' (JBool True))),
           (''generateReturnInDocTemplate'', generateReturnInDocTemplate suggestConfig),
           (''includeCompletionsForImportStatements'',
              includeCompletionsForImportStatements suggestConfig),
           (''includeCompletionsWithClassMemberSnippets'',
              includeCompletionsWithClassMemberSnippets suggestConfig),
           (''includeCompletionsWithSnippetText'', includeCompletionsWithSnippetText suggestConfig),
           (''includeCompletionsWithObjectLiteralMethodSnippets'',
              includeCompletionsWithObjectLiteralMethodSnippets suggestConfig),
           (''includeAutomaticOptionalChainCompletions'',
              includeAutomaticOptionalChainCompletions suggestConfig),
           (''useLabelDetailsInCompletionEntries'', JBool True),
           (''allowIncompleteCompletions'', JBool True),
           (''displayPartsForJSDoc'', JBool True)]
          (getInlayHintsPreferences config))"

definition getFileOptions :: "client \<Rightarrow> workspace \<Rightarrow> FormatOptions \<Rightarrow> TextDocument \<Rightarrow> FileConfiguration" where
  "getFileOptions cl ws options document =
     (let lang = (if isTypeScriptDocument (languageId document) then ''typescript''
                  else ''javascript'') in
      \<lparr> formatOptions = getFormatOptions ws options lang (uri document),
        preferences = getPreferences cl ws lang (uri document) \<rparr>)"

section \<open>The manager and its cache\<close>

text \<open>
  The state the claims speak about: the manager's \<^verbatim>\<open>cachedMap\<close>, and two logs of what
  it did to the outside, in order: the requests handed to \<^verbatim>\<open>client.execute\<close> and the
  documents whose format options were asked of the editor.
\<close>

record state =
  cachedMap :: "string \<rightharpoonup> FileConfiguration"
  sent :: "request list"
  editorQueries :: "string list"

text \<open>A settled promise of an \<^verbatim>\<open>async\<close> method returning \<^verbatim>\<open>void\<close>.\<close>

datatype promise = Fulfilled | Rejected

text \<open>\<^verbatim>\<open>await this.client.execute(command, args, token)\<close>: the request is logged and the
  client decides how it settles.\<close>

definition client_execute :: "client \<Rightarrow> request \<Rightarrow> state \<Rightarrow> exec_result \<times> state" where
  "client_execute cl q s = (execute cl (sent s) q, s\<lparr>sent := sent s @ [q]\<rparr>)"

text \<open>\<^verbatim>\<open>this.cachedMap.delete(uri)\<close>, also the handler of
  \<^verbatim>\<open>workspace.onDidCloseTextDocument\<close>.\<close>

definition cachedMap_delete :: "string \<Rightarrow> state \<Rightarrow> state" where
  "cachedMap_delete u s = s\<lparr>cachedMap := (cachedMap s)(u := None)\<rparr>"

definition onDidCloseTextDocument :: "TextDocument \<Rightarrow> state \<Rightarrow> state" where
  "onDidCloseTextDocument textDocument s = cachedMap_delete (uri textDocument) s"

definition reset :: "state \<Rightarrow> state" where
  "reset s = s\<lparr>cachedMap := Map.empty\<rparr>"

definition ensureConfigurationOptions ::
  "client \<Rightarrow> workspace \<Rightarrow> TextDocument \<Rightarrow> jsvalue \<Rightarrow> jsvalue \<Rightarrow> CancellationToken \<Rightarrow> state
     \<Rightarrow> promise \<times> state" where
  "ensureConfigurationOptions cl ws document insertSpaces' tabSize' tok s =
     (let file' = toPath cl (uri document);
          options = \<lparr> tabSize = tabSize', insertSpaces = insertSpaces' \<rparr>;
          cachedOption = cachedMap s (uri document);
          currentOptions = getFileOptions cl ws options document in
      if (case cachedOption of
            None \<Rightarrow> False
          | Some c \<Rightarrow> objAreEqual (formatOptions c) (formatOptions currentOptions)
                      \<and> objAreEqual (preferences c) (preferences currentOptions))
      then (Fulfilled, s)
      else
        let s1 = s\<lparr>cachedMap := (cachedMap s)(uri document \<mapsto> currentOptions)\<rparr>;
            args' = \<lparr> formatOptions = formatOptions currentOptions,
                      preferences = preferences currentOptions,
                      file_arg = file' \<rparr>;
            (r1, s2) = client_execute cl
                         \<lparr> command = ''configure'', args = args', token = CancellationToken_None \<rparr> s1
        in case r1 of
             Rejects \<Rightarrow> (Rejected, s2)
           | Resolves _ \<Rightarrow>
               (let (response, s3) = client_execute cl
                                       \<lparr> command = ''configure'', args = args', token = tok \<rparr> s2
                in (case response of
                      Resolves ty \<Rightarrow>
                        if ty \<noteq> ''response'' then (Fulfilled, cachedMap_delete (uri document) s3)
                        else (Fulfilled, s3)
                    | Rejects \<Rightarrow> (Fulfilled, cachedMap_delete (uri document) s3))))"

definition ensureConfigurationForDocument ::
  "client \<Rightarrow> workspace \<Rightarrow> TextDocument \<Rightarrow> CancellationToken \<Rightarrow> state \<Rightarrow> promise \<times> state" where
  "ensureConfigurationForDocument cl ws document tok s =
     (case cachedMap s (uri document) of
        Some cached \<Rightarrow>
          ensureConfigurationOptions cl ws document
            (obj_get (formatOptions cached) ''convertTabsToSpaces'')
            (obj_get (formatOptions cached) ''tabSize'') tok s
      | None \<Rightarrow>
          let s1 = s\<lparr>editorQueries := editorQueries s @ [uri document]\<rparr>;
              opts = workspace_getFormatOptions ws (uri document) in
          ensureConfigurationOptions cl ws document (insertSpaces opts) (tabSize opts) tok s1)"

section \<open>Concrete inputs\<close>

text \<open>
  A TypeScript document, a settings store with one formatting rule set, an empty cache, and
  four backends: one that acknowledges every request, one whose deadline-bound requests
  (those carrying a token of their own) are rejected, one that rejects everything, and one
  of version 2.8.4, older than both thresholds.
\<close>

definition example_workspace :: workspace where
  "example_workspace =
     \<lparr> workspace_getConfiguration =
         (\<lambda>section u. if section = ''typescript.format''
                       then [''insertSpaceAfterCommaDelimiter'' \<mapsto> JBool True]
                       else Map.empty),
       workspace_getFormatOptions = (\<lambda>u. \<lparr> tabSize = JNum 4, insertSpaces = JBool False \<rparr>) \<rparr>"

definition example_document :: TextDocument where
  "example_document = \<lparr> uri = ''file:///a.ts'', languageId = ''typescript'' \<rparr>"

definition acknowledging_client :: client where
  "acknowledging_client =
     \<lparr> toPath = drop 7, apiVersion = API 4 4 0, execute = (\<lambda>history q. Resolves ''response'') \<rparr>"

definition deadline_failing_client :: client where
  "deadline_failing_client =
     \<lparr> toPath = drop 7, apiVersion = API 4 4 0,
       execute = (\<lambda>history q. if token q = CancellationToken_None then Resolves ''response''
                               else Rejects) \<rparr>"

definition rejecting_client :: client where
  "rejecting_client =
     \<lparr> toPath = drop 7, apiVersion = API 4 4 0, execute = (\<lambda>history q. Rejects) \<rparr>"

definition old_backend_client :: client where
  "old_backend_client =
     \<lparr> toPath = drop 7, apiVersion = API 2 8 4, execute = (\<lambda>history q. Resolves ''response'') \<rparr>"

definition initial_state :: state where
  "initial_state = \<lparr> cachedMap = Map.empty, sent = [], editorQueries = [] \<rparr>"

text \<open>A cache that holds, for the document, the configuration derived for a tab size of 4.\<close>

definition stale_state :: state where
  "stale_state =
     \<lparr> cachedMap =
         [''file:///a.ts'' \<mapsto>
            getFileOptions acknowledging_client example_workspace
              \<lparr> tabSize = JNum 4, insertSpaces = JBool True \<rparr> example_document],
       sent = [], editorQueries = [] \<rparr>"

section \<open>Properties of the comparison and of one call\<close>

lemma objAreEqual_loop_iff:
  "objAreEqual_loop ks a b = (\<forall>k\<in>set ks. obj_get a k = obj_get b k)"
  by (induction ks) auto

text \<open>What the loop computes: it looks at the keys of the first object, in any order.\<close>

lemma objAreEqual_iff_keys_of_first:
  "objAreEqual a b = (\<forall>key\<in>set (Object_keys a). obj_get a key = obj_get b key)
   \<and> (set (Object_keys a) = set (Object_keys b) \<longrightarrow>
        objAreEqual a b = (\<forall>key. obj_get a key = obj_get b key)
        \<and> objAreEqual a b = objAreEqual b a)"
proof -
  have absent: "obj_get c key = JUndefined" if "key \<notin> set (Object_keys c)" for c key
    using that by (simp add: obj_get_def Object_keys_def map_of_eq_None_iff [THEN iffD2])
  have first: "objAreEqual a b = (\<forall>key\<in>set (Object_keys a). obj_get a key = obj_get b key)" for a b
    by (simp add: objAreEqual_def objAreEqual_loop_iff)
  have "objAreEqual a b = (\<forall>key. obj_get a key = obj_get b key)"
    if "set (Object_keys a) = set (Object_keys b)"
    using that absent [of _ a] absent [of _ b] unfolding first by metis
  moreover have "objAreEqual a b = objAreEqual b a"
    if "set (Object_keys a) = set (Object_keys b)"
    using that unfolding first by auto
  ultimately show ?thesis using first by blast
qed

lemma objAreEqual_refl: "objAreEqual a a"
  by (simp add: objAreEqual_def objAreEqual_loop_iff)

lemma ensure_hit:
  assumes "cachedMap s (uri doc) = Some c"
    and "objAreEqual (formatOptions c)
           (formatOptions (getFileOptions cl ws \<lparr> tabSize = ts, insertSpaces = isp \<rparr> doc))"
    and "objAreEqual (preferences c)
           (preferences (getFileOptions cl ws \<lparr> tabSize = ts, insertSpaces = isp \<rparr> doc))"
  shows "ensureConfigurationOptions cl ws doc isp ts tok s = (Fulfilled, s)"
  using assms by (simp add: ensureConfigurationOptions_def Let_def)

text \<open>The four ways a call can end.\<close>

lemma ensure_cases:
  fixes cl ws doc isp ts tok s
  defines "cur \<equiv> getFileOptions cl ws \<lparr> tabSize = ts, insertSpaces = isp \<rparr> doc"
  defines "a \<equiv> \<lparr> formatOptions = formatOptions cur, preferences = preferences cur,
                   file_arg = toPath cl (uri doc) \<rparr>"
  defines "q1 \<equiv> \<lparr> command = ''configure'', args = a, token = CancellationToken_None \<rparr>"
  defines "q2 \<equiv> \<lparr> command = ''configure'', args = a, token = tok \<rparr>"
  defines "r \<equiv> ensureConfigurationOptions cl ws doc isp ts tok s"
  shows "((\<exists>c. cachedMap s (uri doc) = Some c
             \<and> objAreEqual (formatOptions c) (formatOptions cur)
             \<and> objAreEqual (preferences c) (preferences cur))
          \<and> r = (Fulfilled, s))
       \<or> (execute cl (sent s) q1 = Rejects
            \<and> r = (Rejected, s\<lparr>cachedMap := (cachedMap s)(uri doc \<mapsto> cur), sent := sent s @ [q1]\<rparr>))
       \<or> (execute cl (sent s) q1 \<noteq> Rejects
            \<and> execute cl (sent s @ [q1]) q2 = Resolves ''response''
            \<and> r = (Fulfilled, s\<lparr>cachedMap := (cachedMap s)(uri doc \<mapsto> cur),
                                  sent := sent s @ [q1, q2]\<rparr>))
       \<or> (execute cl (sent s) q1 \<noteq> Rejects
            \<and> execute cl (sent s @ [q1]) q2 \<noteq> Resolves ''response''
            \<and> r = (Fulfilled, s\<lparr>cachedMap := (cachedMap s)(uri doc := None),
                                  sent := sent s @ [q1, q2]\<rparr>))"
  unfolding r_def q1_def q2_def a_def cur_def
  by (simp add: ensureConfigurationOptions_def Let_def client_execute_def cachedMap_delete_def
           split: exec_result.splits option.splits)

lemma ensure_miss:
  fixes cl ws doc isp ts tok s
  defines "cur \<equiv> getFileOptions cl ws \<lparr> tabSize = ts, insertSpaces = isp \<rparr> doc"
  defines "a \<equiv> \<lparr> formatOptions = formatOptions cur, preferences = preferences cur,
                   file_arg = toPath cl (uri doc) \<rparr>"
  defines "q1 \<equiv> \<lparr> command = ''configure'', args = a, token = CancellationToken_None \<rparr>"
  assumes "cachedMap s (uri doc) = None"
  shows "\<exists>rest. sent (snd (ensureConfigurationOptions cl ws doc isp ts tok s)) = sent s @ q1 # rest"
  using assms(4) unfolding q1_def a_def cur_def
  by (simp add: ensureConfigurationOptions_def Let_def client_execute_def cachedMap_delete_def
           split: exec_result.splits option.splits)

lemma ensure_editorQueries:
  "editorQueries (snd (ensureConfigurationOptions cl ws doc isp ts tok s)) = editorQueries s"
  by (simp add: ensureConfigurationOptions_def Let_def client_execute_def cachedMap_delete_def
           split: exec_result.splits option.splits)

lemma getFileOptions_formatOptions:
  "formatOptions (getFileOptions cl ws options doc)
     = getFormatOptions ws options
         (if isTypeScriptDocument (languageId doc) then ''typescript'' else ''javascript'') (uri doc)"
  by (simp add: getFileOptions_def Let_def)

lemma getFormatOptions_fields:
  "obj_get (getFormatOptions ws \<lparr> tabSize = ts, insertSpaces = isp \<rparr> language u) ''tabSize'' = ts"
  "obj_get (getFormatOptions ws \<lparr> tabSize = ts, insertSpaces = isp \<rparr> language u) ''indentSize'' = ts"
  "obj_get (getFormatOptions ws \<lparr> tabSize = ts, insertSpaces = isp \<rparr> language u)
     ''convertTabsToSpaces'' = isp"
  by (simp_all add: getFormatOptions_def obj_get_def Let_def)

lemma ensure_sent_args:
  assumes "q \<in> set (drop (length (sent s)) (sent (snd (ensureConfigurationOptions cl ws doc isp ts tok s))))"
  shows "command q = ''configure''
       \<and> formatOptions (args q) = formatOptions (getFileOptions cl ws \<lparr> tabSize = ts, insertSpaces = isp \<rparr> doc)
       \<and> preferences (args q) = preferences (getFileOptions cl ws \<lparr> tabSize = ts, insertSpaces = isp \<rparr> doc)
       \<and> file_arg (args q) = toPath cl (uri doc)"
  using ensure_cases [of s doc cl ws ts isp tok] assms
  by (elim disjE conjE exE) auto

lemma ensure_rejected_iff:
  "fst (ensureConfigurationOptions cl ws doc isp ts tok s) = Rejected \<longleftrightarrow>
     \<not> (\<exists>c. cachedMap s (uri doc) = Some c
            \<and> objAreEqual (formatOptions c)
                 (formatOptions (getFileOptions cl ws \<lparr> tabSize = ts, insertSpaces = isp \<rparr> doc))
            \<and> objAreEqual (preferences c)
                 (preferences (getFileOptions cl ws \<lparr> tabSize = ts, insertSpaces = isp \<rparr> doc)))
     \<and> execute cl (sent s)
          \<lparr> command = ''configure'',
            args = \<lparr> formatOptions =
                       formatOptions (getFileOptions cl ws \<lparr> tabSize = ts, insertSpaces = isp \<rparr> doc),
                     preferences =
                       preferences (getFileOptions cl ws \<lparr> tabSize = ts, insertSpaces = isp \<rparr> doc),
                     file_arg = toPath cl (uri doc) \<rparr>,
            token = CancellationToken_None \<rparr> = Rejects"
  by (simp add: ensureConfigurationOptions_def Let_def client_execute_def cachedMap_delete_def
           split: exec_result.splits option.splits)

lemma getFormatOptions_ignores_editor_format:
  "getFormatOptions (ws\<lparr>workspace_getFormatOptions := g\<rparr>) options language u
     = getFormatOptions ws options language u"
  unfolding getFormatOptions_def by simp

lemma getCompleteOptions_ignores_editor_format:
  "getCompleteOptions (ws\<lparr>workspace_getFormatOptions := g\<rparr>) langId
     = getCompleteOptions ws langId"
  unfolding getCompleteOptions_def by simp

lemma getPreferences_ignores_editor_format:
  "getPreferences cl (ws\<lparr>workspace_getFormatOptions := g\<rparr>) language u
     = getPreferences cl ws language u"
  unfolding getPreferences_def getCompleteOptions_ignores_editor_format by simp

lemma getFileOptions_ignores_editor_format:
  "getFileOptions cl (ws\<lparr>workspace_getFormatOptions := g\<rparr>) options doc
     = getFileOptions cl ws options doc"
  unfolding getFileOptions_def getFormatOptions_ignores_editor_format
    getPreferences_ignores_editor_format by simp

lemma ensure_ignores_editor_format:
  "ensureConfigurationOptions cl (ws\<lparr>workspace_getFormatOptions := g\<rparr>) doc isp ts tok s
     = ensureConfigurationOptions cl ws doc isp ts tok s"
  by (simp add: ensureConfigurationOptions_def getFileOptions_ignores_editor_format)

section \<open>Two calls in succession\<close>

text \<open>
  C1, as the code has it. When a call to \<^verbatim>\<open>ensureConfigurationOptions\<close> resolves and leaves
  an entry for the document in the cache (it found an entry that compares equal, or its
  deadline-bound \<^verbatim>\<open>configure\<close> was answered with a response of type \<^verbatim>\<open>response\<close>), an
  immediately following call with the same settings store and the same format options
  returns at once: nothing is sent and the state, cache included, is unchanged. If the first
  call found an entry that compares equal, it changed nothing either. In every other case,
  whether the document had no entry or one that differs, the first call sent exactly one
  sequence: the best-effort \<^verbatim>\<open>configure\<close> request and then the deadline-bound
  \<^verbatim>\<open>configure\<close> request, both for the document's path and carrying the candidate
  snapshot, which is then the document's entry. Format options are numbers other than
  \<^verbatim>\<open>NaN\<close>, which no value compares equal to.
\<close>

theorem ensureConfigurationOptions_twice:
  fixes cl ws doc isp ts tok tok' s
  defines "cur \<equiv> getFileOptions cl ws \<lparr> tabSize = ts, insertSpaces = isp \<rparr> doc"
  defines "a \<equiv> \<lparr> formatOptions = formatOptions cur, preferences = preferences cur,
                   file_arg = toPath cl (uri doc) \<rparr>"
  defines "r \<equiv> ensureConfigurationOptions cl ws doc isp ts tok s"
  assumes "fst r = Fulfilled"
    and "cachedMap (snd r) (uri doc) \<noteq> None"
  shows "ensureConfigurationOptions cl ws doc isp ts tok' (snd r) = (Fulfilled, snd r)
       \<and> ((\<exists>c. cachedMap s (uri doc) = Some c
               \<and> objAreEqual (formatOptions c) (formatOptions cur)
               \<and> objAreEqual (preferences c) (preferences cur))
            \<longrightarrow> snd r = s)
       \<and> (\<not> (\<exists>c. cachedMap s (uri doc) = Some c
               \<and> objAreEqual (formatOptions c) (formatOptions cur)
               \<and> objAreEqual (preferences c) (preferences cur))
            \<longrightarrow> sent (snd r)
                  = sent s @ [\<lparr> command = ''configure'', args = a, token = CancellationToken_None \<rparr>,
                              \<lparr> command = ''configure'', args = a, token = tok \<rparr>]
                \<and> cachedMap (snd r) = (cachedMap s)(uri doc \<mapsto> cur))"
proof -
  let ?hit = "\<exists>c. cachedMap s (uri doc) = Some c
               \<and> objAreEqual (formatOptions c) (formatOptions cur)
               \<and> objAreEqual (preferences c) (preferences cur)"
  let ?q1 = "\<lparr> command = ''configure'', args = a, token = CancellationToken_None \<rparr>"
  let ?q2 = "\<lparr> command = ''configure'', args = a, token = tok \<rparr>"
  from ensure_cases [of s doc cl ws ts isp tok]
  consider
    (hit) "?hit" "r = (Fulfilled, s)"
  | (rejected) "fst r = Rejected"
  | (acknowledged) "\<not> ?hit"
      "r = (Fulfilled, s\<lparr>cachedMap := (cachedMap s)(uri doc \<mapsto> cur), sent := sent s @ [?q1, ?q2]\<rparr>)"
  | (evicted) "cachedMap (snd r) (uri doc) = None"
    unfolding r_def a_def cur_def
    using ensure_hit [of s doc _ cl ws ts isp tok]
    by (elim disjE exE conjE) (auto simp del: not_ex)
  then show ?thesis
  proof cases
    case hit
    then obtain c where "cachedMap s (uri doc) = Some c"
      "objAreEqual (formatOptions c) (formatOptions cur)"
      "objAreEqual (preferences c) (preferences cur)" by blast
    then have "ensureConfigurationOptions cl ws doc isp ts tok' s = (Fulfilled, s)"
      unfolding cur_def by (rule ensure_hit)
    with hit show ?thesis by simp
  next
    case rejected
    with assms(4) show ?thesis by simp
  next
    case acknowledged
    have "ensureConfigurationOptions cl ws doc isp ts tok' (snd r) = (Fulfilled, snd r)"
      by (rule ensure_hit [where c = cur])
         (simp_all add: acknowledged objAreEqual_refl cur_def [symmetric])
    moreover have "sent (snd r) = sent s @ [?q1, ?q2]"
      "cachedMap (snd r) = (cachedMap s)(uri doc \<mapsto> cur)"
      by (simp_all add: acknowledged(2))
    ultimately show ?thesis using acknowledged(1) by blast
  next
    case evicted
    with assms(5) show ?thesis by simp
  qed
qed

theorem ensureConfigurationOptions_twice_witness:
  "fst (ensureConfigurationOptions acknowledging_client example_workspace example_document
          (JBool True) (JNum 2) (Token False) stale_state) = Fulfilled
   \<and> cachedMap (snd (ensureConfigurationOptions acknowledging_client example_workspace
          example_document (JBool True) (JNum 2) (Token False) stale_state))
        (uri example_document) \<noteq> None
   \<and> cachedMap stale_state (uri example_document) \<noteq> None
   \<and> ensureConfigurationOptions acknowledging_client example_workspace example_document
        (JBool True) (JNum 2) (Token False)
        (snd (ensureConfigurationOptions acknowledging_client example_workspace example_document
          (JBool True) (JNum 2) (Token False) stale_state))
      = (Fulfilled, snd (ensureConfigurationOptions acknowledging_client example_workspace
          example_document (JBool True) (JNum 2) (Token False) stale_state))
   \<and> sent (snd (ensureConfigurationOptions acknowledging_client example_workspace
          example_document (JBool True) (JNum 2) (Token False) stale_state))
      = [\<lparr> command = ''configure'',
           args = \<lparr> formatOptions = formatOptions (getFileOptions acknowledging_client
                       example_workspace \<lparr> tabSize = JNum 2, insertSpaces = JBool True \<rparr>
                       example_document),
                    preferences = preferences (getFileOptions acknowledging_client
                       example_workspace \<lparr> tabSize = JNum 2, insertSpaces = JBool True \<rparr>
                       example_document),
                    file_arg = ''/a.ts'' \<rparr>,
           token = CancellationToken_None \<rparr>,
         \<lparr> command = ''configure'',
           args = \<lparr> formatOptions = formatOptions (getFileOptions acknowledging_client
                       example_workspace \<lparr> tabSize = JNum 2, insertSpaces = JBool True \<rparr>
                       example_document),
                    preferences = preferences (getFileOptions acknowledging_client
                       example_workspace \<lparr> tabSize = JNum 2, insertSpaces = JBool True \<rparr>
                       example_document),
                    file_arg = ''/a.ts'' \<rparr>,
           token = Token False \<rparr>]"
proof -
  let ?old = "getFileOptions acknowledging_client example_workspace
                \<lparr> tabSize = JNum 4, insertSpaces = JBool True \<rparr> example_document"
  let ?cur = "getFileOptions acknowledging_client example_workspace
                \<lparr> tabSize = JNum 2, insertSpaces = JBool True \<rparr> example_document"
  let ?r = "ensureConfigurationOptions acknowledging_client example_workspace example_document
          (JBool True) (JNum 2) (Token False) stale_state"
  have key: "''tabSize'' \<in> set (Object_keys (formatOptions ?old))"
    by (simp add: getFileOptions_formatOptions getFormatOptions_def Object_keys_def Let_def)
  have "obj_get (formatOptions ?old) ''tabSize'' \<noteq> obj_get (formatOptions ?cur) ''tabSize''"
    by (simp add: getFileOptions_formatOptions getFormatOptions_fields)
  with key have differs: "\<not> objAreEqual (formatOptions ?old) (formatOptions ?cur)"
    unfolding objAreEqual_def objAreEqual_loop_iff by blast
  have entry: "cachedMap stale_state (uri example_document) = Some ?old"
    by (simp add: stale_state_def example_document_def)
  have answers: "execute acknowledging_client history q = Resolves ''response''" for history q
    by (simp add: acknowledging_client_def)
  have h1: "fst ?r = Fulfilled"
    using differs entry
    by (simp add: ensureConfigurationOptions_def Let_def client_execute_def answers)
  have h2: "cachedMap (snd ?r) (uri example_document) \<noteq> None"
    using differs entry
    by (simp add: ensureConfigurationOptions_def Let_def client_execute_def answers)
  have miss: "\<not> (\<exists>c. cachedMap stale_state (uri example_document) = Some c
               \<and> objAreEqual (formatOptions c) (formatOptions ?cur)
               \<and> objAreEqual (preferences c) (preferences ?cur))"
    using differs entry by simp
  have facts: "sent stale_state = []" "toPath acknowledging_client (uri example_document) = ''/a.ts''"
    by (simp_all add: stale_state_def acknowledging_client_def example_document_def)
  from ensureConfigurationOptions_twice [OF h1 h2, of "Token False"] miss
  have "ensureConfigurationOptions acknowledging_client example_workspace example_document
          (JBool True) (JNum 2) (Token False) (snd ?r) = (Fulfilled, snd ?r)"
    and "sent (snd ?r) = sent stale_state @
           [\<lparr> command = ''configure'',
              args = \<lparr> formatOptions = formatOptions ?cur, preferences = preferences ?cur,
                       file_arg = toPath acknowledging_client (uri example_document) \<rparr>,
              token = CancellationToken_None \<rparr>,
            \<lparr> command = ''configure'',
              args = \<lparr> formatOptions = formatOptions ?cur, preferences = preferences ?cur,
                       file_arg = toPath acknowledging_client (uri example_document) \<rparr>,
              token = Token False \<rparr>]"
    by blast+
  with h1 h2 entry facts show ?thesis by simp
qed


text \<open>
  C1 as stated speaks of every pair of successive calls. With a backend whose deadline-bound
  send is rejected, the first call evicts the entry it had just stored, and the second call,
  with the same settings and format options, sends again: four requests, two sequences.
\<close>

theorem ensureConfigurationOptions_twice_counterexample:
  "length (sent (snd (ensureConfigurationOptions deadline_failing_client example_workspace
      example_document (JBool True) (JNum 2) (Token False)
      (snd (ensureConfigurationOptions deadline_failing_client example_workspace
         example_document (JBool True) (JNum 2) (Token False) initial_state))))) = 4
   \<and> ensureConfigurationOptions deadline_failing_client example_workspace
      example_document (JBool True) (JNum 2) (Token False)
      (snd (ensureConfigurationOptions deadline_failing_client example_workspace
         example_document (JBool True) (JNum 2) (Token False) initial_state))
     \<noteq> (Fulfilled, snd (ensureConfigurationOptions deadline_failing_client example_workspace
         example_document (JBool True) (JNum 2) (Token False) initial_state))"
  by (simp add: ensureConfigurationOptions_def Let_def initial_state_def
        deadline_failing_client_def client_execute_def cachedMap_delete_def example_document_def)

section \<open>The comparison of snapshots\<close>

text \<open>
  C2 asks for field-wise equality over the keys of both objects, symmetric, with a key that
  only one of them has counting as a difference. \<^verbatim>\<open>objAreEqual\<close> walks the keys of its
  first argument only: the empty object compares equal to any object, and not the other way
  round. \<^verbatim>\<open>getPreferences\<close> itself produces the empty object below version 2.9.0, so an
  entry stored then compares equal to a later candidate with its 24 preferences, and that
  candidate is never sent.
\<close>

theorem objAreEqual_ignores_keys_of_second:
  "objAreEqual [] [(''quotePreference'', JStr ''single'')]
   \<and> \<not> objAreEqual [(''quotePreference'', JStr ''single'')] []
   \<and> preferences (getFileOptions old_backend_client example_workspace
        \<lparr> tabSize = JNum 2, insertSpaces = JBool True \<rparr> example_document) = []
   \<and> length (preferences (getFileOptions acknowledging_client example_workspace
        \<lparr> tabSize = JNum 2, insertSpaces = JBool True \<rparr> example_document)) = 24
   \<and> ensureConfigurationOptions acknowledging_client example_workspace example_document
        (JBool True) (JNum 2) (Token False)
        (snd (ensureConfigurationOptions old_backend_client example_workspace example_document
           (JBool True) (JNum 2) (Token False) initial_state))
      = (Fulfilled,
         snd (ensureConfigurationOptions old_backend_client example_workspace example_document
           (JBool True) (JNum 2) (Token False) initial_state))"
proof -
  let ?old = "getFileOptions old_backend_client example_workspace
                \<lparr> tabSize = JNum 2, insertSpaces = JBool True \<rparr> example_document"
  let ?new = "getFileOptions acknowledging_client example_workspace
                \<lparr> tabSize = JNum 2, insertSpaces = JBool True \<rparr> example_document"
  let ?s1 = "snd (ensureConfigurationOptions old_backend_client example_workspace
           example_document (JBool True) (JNum 2) (Token False) initial_state)"
  have small: "objAreEqual [] [(''quotePreference'', JStr ''single'')]
      \<and> \<not> objAreEqual [(''quotePreference'', JStr ''single'')] []"
    by (simp add: objAreEqual_def Object_keys_def obj_get_def)
  have none: "preferences ?old = []"
    by (simp add: getFileOptions_def getPreferences_def old_backend_client_def v290_def)
  have many: "length (preferences ?new) = 24"
    by (simp add: getFileOptions_def getPreferences_def acknowledging_client_def v290_def
          getInlayHintsPreferences_def Let_def)
  have answers: "execute old_backend_client history q = Resolves ''response''" for history q
    by (simp add: old_backend_client_def)
  have entry: "cachedMap ?s1 (uri example_document) = Some ?old"
    by (simp add: ensureConfigurationOptions_def Let_def client_execute_def answers
          initial_state_def)
  have same_format: "formatOptions ?old = formatOptions ?new"
    by (simp add: getFileOptions_formatOptions)
  have "ensureConfigurationOptions acknowledging_client example_workspace example_document
        (JBool True) (JNum 2) (Token False) ?s1 = (Fulfilled, ?s1)"
    using entry
  proof (rule ensure_hit)
    show "objAreEqual (formatOptions ?old) (formatOptions ?new)"
      by (simp add: same_format objAreEqual_refl)
    show "objAreEqual (preferences ?old) (preferences ?new)"
      by (simp add: none objAreEqual_def Object_keys_def)
  qed
  with small none many show ?thesis by blast
qed

section \<open>Failed sends\<close>

text \<open>
  C3. Whenever a call to \<^verbatim>\<open>ensureConfigurationOptions\<close> issued its two sends, the
  best-effort one and then the deadline-bound one, and the deadline-bound send did not
  resolve with a response of type \<^verbatim>\<open>response\<close> (it resolved with another type, as a
  cancelled request does, or it rejected), the document has no cache entry afterwards, and
  the next call for that document with the same inputs issues a \<^verbatim>\<open>configure\<close> request
  for the document's path.
\<close>

theorem failed_send_evicts:
  assumes "sent (snd (ensureConfigurationOptions cl ws doc isp ts tok s)) = sent s @ [q1, q2]"
    and "execute cl (sent s @ [q1]) q2 \<noteq> Resolves ''response''"
  shows "cachedMap (snd (ensureConfigurationOptions cl ws doc isp ts tok s)) (uri doc) = None
       \<and> (\<exists>q rest.
            sent (snd (ensureConfigurationOptions cl ws doc isp ts tok'
                    (snd (ensureConfigurationOptions cl ws doc isp ts tok s))))
              = sent (snd (ensureConfigurationOptions cl ws doc isp ts tok s)) @ q # rest
            \<and> command q = ''configure'' \<and> file_arg (args q) = toPath cl (uri doc))"
proof -
  let ?r = "ensureConfigurationOptions cl ws doc isp ts tok s"
  have evicted: "cachedMap (snd ?r) (uri doc) = None"
    using ensure_cases [of s doc cl ws ts isp tok] assms
    by (elim disjE conjE exE) simp_all
  from ensure_miss [OF evicted, of cl ws isp ts tok']
  obtain rest where "sent (snd (ensureConfigurationOptions cl ws doc isp ts tok' (snd ?r)))
      = sent (snd ?r) @ \<lparr> command = ''configure'',
            args = \<lparr> formatOptions = formatOptions (getFileOptions cl ws \<lparr> tabSize = ts, insertSpaces = isp \<rparr> doc),
                     preferences = preferences (getFileOptions cl ws \<lparr> tabSize = ts, insertSpaces = isp \<rparr> doc),
                     file_arg = toPath cl (uri doc) \<rparr>,
            token = CancellationToken_None \<rparr> # rest"
    by blast
  then show ?thesis using evicted by simp
qed

theorem failed_send_evicts_witness:
  "sent (snd (ensureConfigurationOptions deadline_failing_client example_workspace
       example_document (JBool True) (JNum 2) (Token False) initial_state))
     = sent initial_state @
       [\<lparr> command = ''configure'',
          args = \<lparr> formatOptions = formatOptions (getFileOptions deadline_failing_client
                      example_workspace \<lparr> tabSize = JNum 2, insertSpaces = JBool True \<rparr> example_document),
                   preferences = preferences (getFileOptions deadline_failing_client
                      example_workspace \<lparr> tabSize = JNum 2, insertSpaces = JBool True \<rparr> example_document),
                   file_arg = ''/a.ts'' \<rparr>,
          token = CancellationToken_None \<rparr>,
        \<lparr> command = ''configure'',
          args = \<lparr> formatOptions = formatOptions (getFileOptions deadline_failing_client
                      example_workspace \<lparr> tabSize = JNum 2, insertSpaces = JBool True \<rparr> example_document),
                   preferences = preferences (getFileOptions deadline_failing_client
                      example_workspace \<lparr> tabSize = JNum 2, insertSpaces = JBool True \<rparr> example_document),
                   file_arg = ''/a.ts'' \<rparr>,
          token = Token False \<rparr>]
   \<and> cachedMap (snd (ensureConfigurationOptions deadline_failing_client example_workspace
       example_document (JBool True) (JNum 2) (Token False) initial_state)) ''file:///a.ts'' = None
   \<and> sent (snd (ensureConfigurationOptions deadline_failing_client example_workspace
         example_document (JBool True) (JNum 2) (Token False)
         (snd (ensureConfigurationOptions deadline_failing_client example_workspace
            example_document (JBool True) (JNum 2) (Token False) initial_state))))
      \<noteq> sent (snd (ensureConfigurationOptions deadline_failing_client example_workspace
       example_document (JBool True) (JNum 2) (Token False) initial_state))"
proof -
  let ?cur = "getFileOptions deadline_failing_client
                      example_workspace \<lparr> tabSize = JNum 2, insertSpaces = JBool True \<rparr> example_document"
  let ?a = "\<lparr> formatOptions = formatOptions ?cur, preferences = preferences ?cur, file_arg = ''/a.ts'' \<rparr>"
  let ?q1 = "\<lparr> command = ''configure'', args = ?a, token = CancellationToken_None \<rparr>"
  let ?q2 = "\<lparr> command = ''configure'', args = ?a, token = Token False \<rparr>"
  have h1: "sent (snd (ensureConfigurationOptions deadline_failing_client example_workspace
       example_document (JBool True) (JNum 2) (Token False) initial_state))
     = sent initial_state @ [?q1, ?q2]"
    by (simp add: ensureConfigurationOptions_def Let_def initial_state_def
        deadline_failing_client_def client_execute_def cachedMap_delete_def example_document_def)
  have h2: "execute deadline_failing_client (sent initial_state @ [?q1]) ?q2 \<noteq> Resolves ''response''"
    by (simp add: deadline_failing_client_def)
  from failed_send_evicts [OF h1 h2, of "Token False"] h1
  show ?thesis by (auto simp: example_document_def)
qed

text \<open>
  C4 says that no rejection of either send reaches the caller. The deadline-bound send is
  awaited inside \<^verbatim>\<open>try\<close>; the best-effort send before it is awaited outside. With a
  backend that rejects, the promise returned by \<^verbatim>\<open>ensureConfigurationOptions\<close> rejects,
  and the entry stored before the send stays in the cache.
\<close>

theorem best_effort_rejection_propagates:
  "fst (ensureConfigurationOptions rejecting_client example_workspace example_document
          (JBool True) (JNum 2) (Token False) initial_state) = Rejected
   \<and> cachedMap (snd (ensureConfigurationOptions rejecting_client example_workspace
          example_document (JBool True) (JNum 2) (Token False) initial_state))
        ''file:///a.ts'' \<noteq> None"
  by (simp add: ensureConfigurationOptions_def Let_def initial_state_def
        rejecting_client_def client_execute_def example_document_def)

section \<open>Preferences\<close>

text \<open>
  C5. For every language and document URI, when the backend's API version is below 2.9.0,
  \<^verbatim>\<open>getPreferences\<close> returns the empty object.
\<close>

theorem getPreferences_below_v290:
  "lt (apiVersion cl) v290 \<Longrightarrow> getPreferences cl ws language u = []"
  by (simp add: getPreferences_def)

theorem getPreferences_below_v290_witness:
  "lt (apiVersion old_backend_client) v290
   \<and> getPreferences old_backend_client example_workspace ''typescript'' ''file:///a.ts'' = []"
proof -
  have h: "lt (apiVersion old_backend_client) v290"
    by (simp add: old_backend_client_def v290_def)
  from getPreferences_below_v290 [OF h] h show ?thesis by simp
qed

section \<open>Closing a document\<close>

text \<open>
  C6. The close handler deletes the document's cache entry. Deleting an entry that is not
  there changes nothing, the handler is a total function of the state (it has no failing
  branch), running it twice is the same as running it once, and after it the next
  \<^verbatim>\<open>ensureConfigurationOptions\<close> for the document issues a \<^verbatim>\<open>configure\<close> request
  for the document's path, whatever the inputs.
\<close>

theorem close_is_idempotent_and_forces_resend:
  "(cachedMap s (uri doc) = None \<longrightarrow> onDidCloseTextDocument doc s = s)
   \<and> onDidCloseTextDocument doc (onDidCloseTextDocument doc s) = onDidCloseTextDocument doc s
   \<and> cachedMap (onDidCloseTextDocument doc s) (uri doc) = None
   \<and> (\<exists>q rest.
        sent (snd (ensureConfigurationOptions cl ws doc isp ts tok (onDidCloseTextDocument doc s)))
          = sent s @ q # rest
        \<and> command q = ''configure'' \<and> file_arg (args q) = toPath cl (uri doc))"
proof -
  have absent: "onDidCloseTextDocument doc s = s" if "cachedMap s (uri doc) = None"
  proof -
    from that have "(cachedMap s)(uri doc := None) = cachedMap s"
      by (simp add: fun_upd_idem)
    then show ?thesis
      by (simp add: onDidCloseTextDocument_def cachedMap_delete_def)
  qed
  have gone: "cachedMap (onDidCloseTextDocument doc s) (uri doc) = None"
    by (simp add: onDidCloseTextDocument_def cachedMap_delete_def)
  have twice: "onDidCloseTextDocument doc (onDidCloseTextDocument doc s) = onDidCloseTextDocument doc s"
    by (simp add: onDidCloseTextDocument_def cachedMap_delete_def)
  have log: "sent (onDidCloseTextDocument doc s) = sent s"
    by (simp add: onDidCloseTextDocument_def cachedMap_delete_def)
  from ensure_miss [OF gone, of cl ws isp ts tok]
  have "\<exists>q rest.
        sent (snd (ensureConfigurationOptions cl ws doc isp ts tok (onDidCloseTextDocument doc s)))
          = sent s @ q # rest
        \<and> command q = ''configure'' \<and> file_arg (args q) = toPath cl (uri doc)"
    unfolding log by (elim exE) simp
  with absent gone twice show ?thesis by blast
qed

theorem close_is_idempotent_and_forces_resend_witness:
  "cachedMap initial_state (uri example_document) = None
   \<and> onDidCloseTextDocument example_document initial_state = initial_state
   \<and> sent (snd (ensureConfigurationOptions acknowledging_client example_workspace example_document
        (JBool True) (JNum 2) (Token False)
        (onDidCloseTextDocument example_document
          (snd (ensureConfigurationOptions acknowledging_client example_workspace example_document
             (JBool True) (JNum 2) (Token False) initial_state)))))
     \<noteq> sent (snd (ensureConfigurationOptions acknowledging_client example_workspace example_document
             (JBool True) (JNum 2) (Token False) initial_state))"
proof -
  have h: "cachedMap initial_state (uri example_document) = None"
    by (simp add: initial_state_def)
  from close_is_idempotent_and_forces_resend [of initial_state example_document
      acknowledging_client example_workspace "JBool True" "JNum 2" "Token False"]
    close_is_idempotent_and_forces_resend [of
      "snd (ensureConfigurationOptions acknowledging_client example_workspace example_document
             (JBool True) (JNum 2) (Token False) initial_state)" example_document
      acknowledging_client example_workspace "JBool True" "JNum 2" "Token False"] h
  show ?thesis by auto
qed

section \<open>Quote style\<close>

text \<open>
  C7. \<^verbatim>\<open>getQuoteStyle\<close> returns the configured quote style (\<^verbatim>\<open>auto\<close> when none is
  set) whenever the API version is at least 3.3.3, and whenever the configured value is
  not \<^verbatim>\<open>auto\<close>; below 3.3.3 with the value \<^verbatim>\<open>auto\<close> or unset it returns
  \<^verbatim>\<open>single\<close>.
\<close>

theorem getQuoteStyle_cases:
  "(gte (apiVersion cl) v333 \<longrightarrow>
      getQuoteStyle cl config = config_get_default config ''quoteStyle'' (JStr ''auto''))
   \<and> (config ''quoteStyle'' = Some v \<and> v \<noteq> JStr ''auto'' \<longrightarrow> getQuoteStyle cl config = v)
   \<and> (lt (apiVersion cl) v333
        \<and> (config ''quoteStyle'' = None \<or> config ''quoteStyle'' = Some (JStr ''auto''))
      \<longrightarrow> getQuoteStyle cl config = JStr ''single'')"
  by (auto simp: getQuoteStyle_def config_get_default_def gte_def Let_def)

theorem getQuoteStyle_cases_witness:
  "gte (apiVersion acknowledging_client) v333
   \<and> getQuoteStyle acknowledging_client [''quoteStyle'' \<mapsto> JStr ''auto''] = JStr ''auto''
   \<and> getQuoteStyle old_backend_client [''quoteStyle'' \<mapsto> JStr ''double''] = JStr ''double''
   \<and> lt (apiVersion old_backend_client) v333
   \<and> getQuoteStyle old_backend_client [''quoteStyle'' \<mapsto> JStr ''auto''] = JStr ''single''
   \<and> getQuoteStyle old_backend_client Map.empty = JStr ''single''"
proof -
  have h1: "gte (apiVersion acknowledging_client) v333"
    by (simp add: acknowledging_client_def gte_def v333_def)
  have h2: "lt (apiVersion old_backend_client) v333"
    by (simp add: old_backend_client_def v333_def)
  from getQuoteStyle_cases [of acknowledging_client "[''quoteStyle'' \<mapsto> JStr ''auto'']"]
    getQuoteStyle_cases [of old_backend_client "[''quoteStyle'' \<mapsto> JStr ''double'']" "JStr ''double''"]
    getQuoteStyle_cases [of old_backend_client "[''quoteStyle'' \<mapsto> JStr ''auto'']"]
    getQuoteStyle_cases [of old_backend_client Map.empty]
    h1 h2
  show ?thesis by (simp add: config_get_default_def)
qed

section \<open>Format options\<close>

text \<open>
  C8. For every \<^verbatim>\<open>FormatOptions\<close>, \<^verbatim>\<open>getFormatOptions\<close> puts the editor's
  \<^verbatim>\<open>tabSize\<close> into both \<^verbatim>\<open>tabSize\<close> and \<^verbatim>\<open>indentSize\<close> and its
  \<^verbatim>\<open>insertSpaces\<close> into \<^verbatim>\<open>convertTabsToSpaces\<close>, unchanged; and every request
  that a call to \<^verbatim>\<open>ensureConfigurationOptions\<close> sends carries these three fields with
  the values the call was given.
\<close>

theorem tabSize_insertSpaces_copied:
  "obj_get (getFormatOptions ws \<lparr> tabSize = ts, insertSpaces = isp \<rparr> language u) ''tabSize'' = ts
   \<and> obj_get (getFormatOptions ws \<lparr> tabSize = ts, insertSpaces = isp \<rparr> language u) ''indentSize'' = ts
   \<and> obj_get (getFormatOptions ws \<lparr> tabSize = ts, insertSpaces = isp \<rparr> language u)
        ''convertTabsToSpaces'' = isp
   \<and> (\<forall>q\<in>set (drop (length (sent s))
                 (sent (snd (ensureConfigurationOptions cl ws doc isp ts tok s)))).
        obj_get (formatOptions (args q)) ''tabSize'' = ts
        \<and> obj_get (formatOptions (args q)) ''indentSize'' = ts
        \<and> obj_get (formatOptions (args q)) ''convertTabsToSpaces'' = isp)"
proof -
  have "obj_get (formatOptions (args q)) ''tabSize'' = ts
        \<and> obj_get (formatOptions (args q)) ''indentSize'' = ts
        \<and> obj_get (formatOptions (args q)) ''convertTabsToSpaces'' = isp"
    if "q \<in> set (drop (length (sent s))
                 (sent (snd (ensureConfigurationOptions cl ws doc isp ts tok s))))" for q
    using ensure_sent_args [OF that]
    by (simp add: getFileOptions_formatOptions getFormatOptions_fields)
  then show ?thesis
    by (simp add: getFormatOptions_fields)
qed

theorem tabSize_insertSpaces_copied_witness:
  "sent (snd (ensureConfigurationOptions acknowledging_client example_workspace example_document
        (JBool True) (JNum 2) (Token False) initial_state)) \<noteq> []
   \<and> (let q = hd (sent (snd (ensureConfigurationOptions acknowledging_client example_workspace
        example_document (JBool True) (JNum 2) (Token False) initial_state))) in
      obj_get (formatOptions (args q)) ''tabSize'' = JNum 2
      \<and> obj_get (formatOptions (args q)) ''indentSize'' = JNum 2
      \<and> obj_get (formatOptions (args q)) ''convertTabsToSpaces'' = JBool True)"
proof -
  let ?log = "sent (snd (ensureConfigurationOptions acknowledging_client example_workspace
        example_document (JBool True) (JNum 2) (Token False) initial_state))"
  have h1: "?log \<noteq> []"
    by (simp add: ensureConfigurationOptions_def Let_def initial_state_def
          acknowledging_client_def client_execute_def)
  have h0: "length (sent initial_state) = 0"
    by (simp add: initial_state_def)
  from h1 have h2: "hd ?log \<in> set (drop (length (sent initial_state)) ?log)"
    unfolding h0 by simp
  from tabSize_insertSpaces_copied [of example_workspace "JNum 2" "JBool True" "''typescript''"
      "''file:///a.ts''" initial_state acknowledging_client example_document "Token False"] h1 h2
  show ?thesis by (simp add: Let_def)
qed

section \<open>Import module specifier\<close>

text \<open>
  C9 as stated: each of the four values \<^verbatim>\<open>shortest\<close>, \<^verbatim>\<open>project-relative\<close>,
  \<^verbatim>\<open>relative\<close>, \<^verbatim>\<open>non-relative\<close> is passed through. The switch has no case for
  \<^verbatim>\<open>shortest\<close>, which falls to the default and gives \<^verbatim>\<open>undefined\<close>.
\<close>

theorem getImportModuleSpecifier_shortest_counterexample:
  "getImportModuleSpecifier [''importModuleSpecifier'' \<mapsto> JStr ''shortest''] = JUndefined
   \<and> getImportModuleSpecifier [''importModuleSpecifier'' \<mapsto> JStr ''shortest'']
       \<noteq> JStr ''shortest''"
  by (simp add: getImportModuleSpecifier_def config_get_def)

text \<open>
  C9, as the code has it. The values \<^verbatim>\<open>project-relative\<close>, \<^verbatim>\<open>relative\<close> and
  \<^verbatim>\<open>non-relative\<close> are passed through; an unset value, \<^verbatim>\<open>shortest\<close> and every
  other value give \<^verbatim>\<open>undefined\<close>.
\<close>

theorem getImportModuleSpecifier_three_way:
  "(v \<in> {''project-relative'', ''relative'', ''non-relative''}
      \<and> config ''importModuleSpecifier'' = Some (JStr v)
    \<longrightarrow> getImportModuleSpecifier config = JStr v)
   \<and> (config ''importModuleSpecifier'' = None \<longrightarrow> getImportModuleSpecifier config = JUndefined)
   \<and> (config ''importModuleSpecifier'' = Some w
        \<and> w \<notin> {JStr ''project-relative'', JStr ''relative'', JStr ''non-relative''}
      \<longrightarrow> getImportModuleSpecifier config = JUndefined)"
  by (auto simp: getImportModuleSpecifier_def config_get_def Let_def)

theorem getImportModuleSpecifier_three_way_witness:
  "getImportModuleSpecifier [''importModuleSpecifier'' \<mapsto> JStr ''project-relative'']
     = JStr ''project-relative''
   \<and> getImportModuleSpecifier [''importModuleSpecifier'' \<mapsto> JStr ''relative''] = JStr ''relative''
   \<and> getImportModuleSpecifier [''importModuleSpecifier'' \<mapsto> JStr ''non-relative'']
     = JStr ''non-relative''
   \<and> getImportModuleSpecifier Map.empty = JUndefined
   \<and> getImportModuleSpecifier [''importModuleSpecifier'' \<mapsto> JStr ''shortest''] = JUndefined"
  using getImportModuleSpecifier_three_way [of "''project-relative''"
          "[''importModuleSpecifier'' \<mapsto> JStr ''project-relative'']"]
    getImportModuleSpecifier_three_way [of "''relative''"
          "[''importModuleSpecifier'' \<mapsto> JStr ''relative'']"]
    getImportModuleSpecifier_three_way [of "''non-relative''"
          "[''importModuleSpecifier'' \<mapsto> JStr ''non-relative'']"]
    getImportModuleSpecifier_three_way [of _ Map.empty]
    getImportModuleSpecifier_three_way [of _ "[''importModuleSpecifier'' \<mapsto> JStr ''shortest'']"
          "JStr ''shortest''"]
  by simp

section \<open>ensureConfigurationForDocument\<close>

text \<open>
  C10. When the document has a cache entry, \<^verbatim>\<open>ensureConfigurationForDocument\<close> is
  \<^verbatim>\<open>ensureConfigurationOptions\<close> with \<^verbatim>\<open>insertSpaces\<close> read from the entry's
  \<^verbatim>\<open>convertTabsToSpaces\<close> and \<^verbatim>\<open>tabSize\<close> from its \<^verbatim>\<open>tabSize\<close>; the editor is
  not asked for its format options, and the result does not depend on what the editor would
  have answered. When the document has no entry, the editor is asked once, for that
  document, and its answer is what \<^verbatim>\<open>ensureConfigurationOptions\<close> receives.
\<close>

theorem ensureConfigurationForDocument_uses_cache:
  "(cachedMap s (uri doc) = Some cached \<longrightarrow>
      ensureConfigurationForDocument cl ws doc tok s
        = ensureConfigurationOptions cl ws doc
            (obj_get (formatOptions cached) ''convertTabsToSpaces'')
            (obj_get (formatOptions cached) ''tabSize'') tok s
      \<and> editorQueries (snd (ensureConfigurationForDocument cl ws doc tok s)) = editorQueries s
      \<and> ensureConfigurationForDocument cl (ws\<lparr>workspace_getFormatOptions := g\<rparr>) doc tok s
        = ensureConfigurationForDocument cl ws doc tok s)
   \<and> (cachedMap s (uri doc) = None \<longrightarrow>
      ensureConfigurationForDocument cl ws doc tok s
        = ensureConfigurationOptions cl ws doc
            (insertSpaces (workspace_getFormatOptions ws (uri doc)))
            (tabSize (workspace_getFormatOptions ws (uri doc))) tok
            (s\<lparr>editorQueries := editorQueries s @ [uri doc]\<rparr>)
      \<and> editorQueries (snd (ensureConfigurationForDocument cl ws doc tok s))
        = editorQueries s @ [uri doc])"
  by (simp add: ensureConfigurationForDocument_def ensure_editorQueries
        ensure_ignores_editor_format Let_def)

theorem ensureConfigurationForDocument_uses_cache_witness:
  "cachedMap (snd (ensureConfigurationOptions acknowledging_client example_workspace
       example_document (JBool True) (JNum 2) (Token False) initial_state)) (uri example_document)
     = Some (getFileOptions acknowledging_client example_workspace
              \<lparr> tabSize = JNum 2, insertSpaces = JBool True \<rparr> example_document)
   \<and> ensureConfigurationForDocument acknowledging_client example_workspace example_document
       (Token False)
       (snd (ensureConfigurationOptions acknowledging_client example_workspace
          example_document (JBool True) (JNum 2) (Token False) initial_state))
     = ensureConfigurationOptions acknowledging_client example_workspace example_document
         (JBool True) (JNum 2) (Token False)
         (snd (ensureConfigurationOptions acknowledging_client example_workspace
            example_document (JBool True) (JNum 2) (Token False) initial_state))
   \<and> editorQueries (snd (ensureConfigurationForDocument acknowledging_client example_workspace
       example_document (Token False)
       (snd (ensureConfigurationOptions acknowledging_client example_workspace
          example_document (JBool True) (JNum 2) (Token False) initial_state)))) = []
   \<and> cachedMap initial_state (uri example_document) = None
   \<and> editorQueries (snd (ensureConfigurationForDocument acknowledging_client example_workspace
       example_document (Token False) initial_state)) = [''file:///a.ts'']"
proof -
  let ?cur = "getFileOptions acknowledging_client example_workspace
              \<lparr> tabSize = JNum 2, insertSpaces = JBool True \<rparr> example_document"
  let ?s1 = "snd (ensureConfigurationOptions acknowledging_client example_workspace
       example_document (JBool True) (JNum 2) (Token False) initial_state)"
  have h1: "cachedMap ?s1 (uri example_document) = Some ?cur"
    by (simp add: ensureConfigurationOptions_def Let_def initial_state_def
          acknowledging_client_def client_execute_def)
  have h2: "cachedMap initial_state (uri example_document) = None"
    by (simp add: initial_state_def)
  have h3: "editorQueries ?s1 = []"
    by (simp add: ensure_editorQueries initial_state_def)
  have h4: "editorQueries initial_state = []" "uri example_document = ''file:///a.ts''"
    by (simp_all add: initial_state_def example_document_def)
  have h5: "obj_get (formatOptions ?cur) ''convertTabsToSpaces'' = JBool True"
    "obj_get (formatOptions ?cur) ''tabSize'' = JNum 2"
    by (simp_all add: getFileOptions_formatOptions getFormatOptions_fields)
  have cached: "ensureConfigurationForDocument acknowledging_client example_workspace
        example_document (Token False) ?s1
      = ensureConfigurationOptions acknowledging_client example_workspace example_document
          (JBool True) (JNum 2) (Token False) ?s1
    \<and> editorQueries (snd (ensureConfigurationForDocument acknowledging_client example_workspace
        example_document (Token False) ?s1)) = []"
    using ensureConfigurationForDocument_uses_cache [where s = ?s1 and doc = example_document
      and cached = ?cur and cl = acknowledging_client and ws = example_workspace
      and tok = "Token False" and g = "workspace_getFormatOptions example_workspace"]
      h1 h3 h5
    by (simp add: ensure_editorQueries)
  have absent: "editorQueries (snd (ensureConfigurationForDocument acknowledging_client
       example_workspace example_document (Token False) initial_state)) = [''file:///a.ts'']"
    using ensureConfigurationForDocument_uses_cache [where s = initial_state
      and doc = example_document and cached = ?cur and cl = acknowledging_client
      and ws = example_workspace and tok = "Token False"
      and g = "workspace_getFormatOptions example_workspace"]
      h2 h4
    by (simp add: ensure_editorQueries)
  from h1 h2 cached absent show ?thesis by blast
qed

end
